theory Spec2Isabelle
  imports Main "HOL-Library.Sublist"
begin

section \<open>The front end (App.js)\<close>

text \<open>
  The React component \<^verbatim>\<open>App\<close> keeps the form and the download state in
  \<^verbatim>\<open>useState\<close> cells and talks to the back end through one axios instance
  \<^verbatim>\<open>api\<close>. The model below is a state-passing embedding of \<^verbatim>\<open>validateUrl\<close>,
  \<^verbatim>\<open>handleDownload\<close> and of the callback that \<^verbatim>\<open>handleDownload\<close> hands to
  \<^verbatim>\<open>setInterval\<close>. What the browser and the network contribute (the \<^verbatim>\<open>URL\<close>
  constructor, the outcome of each HTTP request, the firing of the timer) is input.
\<close>

subsection \<open>JavaScript strings\<close>

text \<open>
  Strings are byte lists. \<^verbatim>\<open>toLowerCase\<close> and \<^verbatim>\<open>trim\<close> are modelled on the ASCII
  range (letters A-Z, and the white space characters TAB, LF, VT, FF, CR, SPACE);
  \<^verbatim>\<open>s.includes(t)\<close> is the contiguous-substring test. JavaScript's \<^verbatim>\<open>trim\<close> also
  strips the white space beyond ASCII (U+00A0, U+FEFF, U+2028, U+2029 and the space
  separators); the model leaves those bytes in place, so it is \<^verbatim>\<open>trim\<close> on strings whose
  ends are ASCII. \<^verbatim>\<open>trim\<close> is applied to the URL in the body of the POST and nowhere
  else.
\<close>

definition lowerChar :: "char \<Rightarrow> char" where
  "lowerChar c =
     (case map_of (zip ''ABCDEFGHIJKLMNOPQRSTUVWXYZ'' ''abcdefghijklmnopqrstuvwxyz'') c of
        None \<Rightarrow> c
      | Some d \<Rightarrow> d)"

definition toLowerCase :: "string \<Rightarrow> string" where
  "toLowerCase s = map lowerChar s"

definition isWhiteSpace :: "char \<Rightarrow> bool" where
  "isWhiteSpace c = (c \<in> set [CHR 0x09, CHR 0x0A, CHR 0x0B, CHR 0x0C, CHR 0x0D, CHR 0x20])"

definition trim :: "string \<Rightarrow> string" where
  "trim s = rev (dropWhile isWhiteSpace (rev (dropWhile isWhiteSpace s)))"

definition includes_str :: "string \<Rightarrow> string \<Rightarrow> bool" where
  "includes_str s t = sublist t s"

text \<open>
  A value that is a string, \<^verbatim>\<open>undefined\<close> or \<^verbatim>\<open>null\<close> is a \<open>string option\<close>.
  \<^verbatim>\<open>v || d\<close> yields \<open>d\<close> when \<open>v\<close> is falsy: absent, or the empty string. The
  progress of an answer is modelled as an integer (absent, or 0, is falsy); a JavaScript
  number with a fraction has no value in the model, and nothing below is stated about
  the value shown as progress.
\<close>

definition str_or :: "string option \<Rightarrow> string \<Rightarrow> string" where
  "str_or v d = (case v of None \<Rightarrow> d | Some s \<Rightarrow> if s = [] then d else s)"

definition num_or :: "int option \<Rightarrow> int \<Rightarrow> int" where
  "num_or v d = (case v of None \<Rightarrow> d | Some n \<Rightarrow> if n = 0 then d else n)"

subsection \<open>Constants\<close>

definition PLATFORMS_YOUTUBE :: string where
  "PLATFORMS_YOUTUBE = ''youtube''"

definition PLATFORMS_TIKTOK :: string where
  "PLATFORMS_TIKTOK = ''tiktok''"

definition FORMATS_MP4 :: string where
  "FORMATS_MP4 = ''mp4''"

definition FORMATS_MP3 :: string where
  "FORMATS_MP3 = ''mp3''"

text \<open>\<^verbatim>\<open>Object.values(PLATFORMS)\<close> and \<^verbatim>\<open>Object.values(FORMATS)\<close>.\<close>

definition PLATFORMS :: "string list" where
  "PLATFORMS = [PLATFORMS_YOUTUBE, PLATFORMS_TIKTOK]"

definition FORMATS :: "string list" where
  "FORMATS = [FORMATS_MP4, FORMATS_MP3]"

definition MAX_RETRIES :: nat where
  "MAX_RETRIES = 3"

text \<open>The delay handed to \<^verbatim>\<open>setInterval\<close>, and the \<^verbatim>\<open>timeout\<close> of the axios instance,
  both in milliseconds.\<close>

definition POLL_DELAY :: nat where
  "POLL_DELAY = 1000"

definition API_TIMEOUT :: nat where
  "API_TIMEOUT = 300000"

subsection \<open>Requests, responses and the component state\<close>

record download_body =
  body_url :: string
  body_platform :: string
  body_format :: string

datatype request =
  Post string download_body
| Get string

text \<open>The body of a resolved \<^verbatim>\<open>POST /api/download\<close>, as far as the client reads it.\<close>

record post_data =
  download_id :: string
  post_status :: string

text \<open>A settled POST: axios resolves on a 2xx answer and rejects on anything else
  (network failure, timeout, error status).\<close>

datatype post_result =
  PostResolved post_data
| PostRejected

text \<open>The body of a resolved \<^verbatim>\<open>GET /api/progress/{id}\<close>: the three fields the callback
  destructures, under the names it gives them.\<close>

record progress_data =
  status :: string
  downloadProgress :: "int option"
  statusMessage :: "string option"

text \<open>
  A settled progress request. \<open>Rejected m\<close> is anything that lands in the callback's
  \<^verbatim>\<open>catch\<close>, with \<open>m\<close> the value of \<^verbatim>\<open>err.response?.data?.message\<close>: a rejected request,
  or a resolved one whose body cannot be destructured (then \<open>m\<close> is absent).
\<close>

datatype poll_result =
  Resolved progress_data
| Rejected "string option"

record snackbar =
  sb_open :: bool
  sb_message :: string
  sb_severity :: string

text \<open>
  The state cells of \<^verbatim>\<open>App\<close> that \<^verbatim>\<open>handleDownload\<close> reads or writes, then the
  environment it acts on: the requests sent through \<^verbatim>\<open>api\<close> so far, the addresses
  assigned to \<^verbatim>\<open>window.location.href\<close>, and the variables of the running
  \<^verbatim>\<open>handleDownload\<close> call (\<^verbatim>\<open>downloadId\<close>, \<^verbatim>\<open>retryCount\<close>, the interval timer
  with its delay while it is set, the number of progress requests not yet settled).
\<close>

record client =
  url :: string
  platform :: string
  format :: string
  downloading :: bool
  progress :: int
  message :: string
  error :: string
  snack :: snackbar
  baseURL :: string
  requests :: "request list"
  navigations :: "string list"
  downloadId :: string
  retryCount :: nat
  interval :: "nat option"
  pending :: nat

subsection \<open>validateUrl\<close>

text \<open>
  \<open>hostname_of u\<close> stands for \<^verbatim>\<open>new URL(u).hostname\<close>, \<open>None\<close> when the constructor
  throws. The result is the error message, or \<open>None\<close> for \<^verbatim>\<open>null\<close>.
\<close>

definition validateUrl :: "(string \<Rightarrow> string option) \<Rightarrow> string \<Rightarrow> string \<Rightarrow> string option" where
  "validateUrl hostname_of plat u =
     (case hostname_of u of
        None \<Rightarrow> Some ''Please enter a valid URL''
      | Some h \<Rightarrow>
          (let hostname = toLowerCase h in
           if plat = PLATFORMS_YOUTUBE then
             (if \<not> includes_str hostname ''youtube.com'' \<and> \<not> includes_str hostname ''youtu.be''
              then Some ''Please enter a valid YouTube URL''
              else None)
           else if plat = PLATFORMS_TIKTOK then
             (if \<not> includes_str hostname ''tiktok.com''
              then Some ''Please enter a valid TikTok URL''
              else None)
           else None))"

subsection \<open>handleDownload\<close>

text \<open>
  The four checks, then the POST. \<open>post\<close> is how the POST settles. A rejected POST
  makes the \<^verbatim>\<open>await\<close> throw; \<^verbatim>\<open>handleDownload\<close> has no \<^verbatim>\<open>try\<close> around it, so
  nothing after the \<^verbatim>\<open>await\<close> runs.
\<close>

definition handleDownload :: "(string \<Rightarrow> string option) \<Rightarrow> post_result \<Rightarrow> client \<Rightarrow> client" where
  "handleDownload hostname_of post s =
     (if url s = [] then s\<lparr>error := ''Please enter a URL''\<rparr>
      else if str_or (validateUrl hostname_of (platform s) (url s)) [] \<noteq> [] then
        s\<lparr>error := str_or (validateUrl hostname_of (platform s) (url s)) []\<rparr>
      else if platform s \<notin> set PLATFORMS then s\<lparr>error := ''Invalid platform selected''\<rparr>
      else if format s \<notin> set FORMATS then s\<lparr>error := ''Invalid format selected''\<rparr>
      else
        (let s1 = s\<lparr>downloading := True, error := [],
                    requests := requests s @
                      [Post ''/api/download''
                         \<lparr>body_url = trim (url s),
                          body_platform = toLowerCase (platform s),
                          body_format = toLowerCase (format s)\<rparr>]\<rparr>
         in case post of
              PostRejected \<Rightarrow> s1
            | PostResolved d \<Rightarrow>
                s1\<lparr>downloadId := download_id d,
                   retryCount := 0,
                   message := (if post_status d = ''in_progress''
                               then ''Download already in progress...''
                               else ''Starting download...''),
                   interval := Some POLL_DELAY\<rparr>))"

subsection \<open>The polling callback\<close>

text \<open>
  A firing of the timer runs the callback up to its \<^verbatim>\<open>await\<close>: it sends the progress
  request. A cleared timer does not fire.
\<close>

definition tick :: "client \<Rightarrow> client" where
  "tick s =
     (case interval s of
        None \<Rightarrow> s
      | Some d \<Rightarrow>
          s\<lparr>requests := requests s @ [Get (''/api/progress/'' @ downloadId s)],
            pending := Suc (pending s)\<rparr>)"

text \<open>The rest of the callback, run when the progress request settles.\<close>

definition settle :: "poll_result \<Rightarrow> client \<Rightarrow> client" where
  "settle r s =
     (case r of
        Resolved d \<Rightarrow>
          (let s1 = s\<lparr>progress := num_or (downloadProgress d) 0,
                      message := str_or (statusMessage d) []\<rparr>
           in if status d = ''completed'' then
                s1\<lparr>interval := None,
                   downloading := False,
                   snack := \<lparr>sb_open = True,
                             sb_message = ''Download completed successfully!'',
                             sb_severity = ''success''\<rparr>,
                   navigations := navigations s1 @
                     [baseURL s1 @ ''/api/download/'' @ downloadId s1 @ ''/file'']\<rparr>
              else if status d = ''error'' then
                s1\<lparr>interval := None,
                   downloading := False,
                   error := str_or (statusMessage d) ''Download failed'',
                   snack := \<lparr>sb_open = True,
                             sb_message = str_or (statusMessage d) ''Download failed'',
                             sb_severity = ''error''\<rparr>\<rparr>
              else s1)
      | Rejected m \<Rightarrow>
          (let s1 = s\<lparr>retryCount := Suc (retryCount s)\<rparr>
           in if retryCount s1 \<ge> MAX_RETRIES then
                s1\<lparr>interval := None,
                   downloading := False,
                   error := str_or m ''Failed to get download progress'',
                   snack := \<lparr>sb_open = True,
                             sb_message = str_or m ''Failed to get download progress'',
                             sb_severity = ''error''\<rparr>\<rparr>
              else s1))"

text \<open>
  What happens to a running \<^verbatim>\<open>handleDownload\<close> call, in the order the event loop
  runs it: the timer fires, or one of the progress requests in flight settles. A
  request can settle only if one is in flight.
\<close>

datatype event =
  Tick
| Done poll_result

definition step :: "event \<Rightarrow> client \<Rightarrow> client" where
  "step e s =
     (case e of
        Tick \<Rightarrow> tick s
      | Done r \<Rightarrow> if pending s = 0 then s else settle r (s\<lparr>pending := pending s - 1\<rparr>))"

fun run :: "event list \<Rightarrow> client \<Rightarrow> client" where
  "run [] s = s"
| "run (e # es) s = run es (step e s)"

text \<open>An event list the event loop can produce from \<open>s\<close>: every settled request was
  in flight.\<close>

fun feasible :: "event list \<Rightarrow> client \<Rightarrow> bool" where
  "feasible [] s = True"
| "feasible (Tick # es) s = feasible es (step Tick s)"
| "feasible (Done r # es) s = (pending s > 0 \<and> feasible es (step (Done r) s))"

text \<open>Vocabulary for statements about event lists: a progress check that ended in
  the \<^verbatim>\<open>catch\<close>, an answer whose status ends the polling, an answer with status
  \<^verbatim>\<open>completed\<close>, an answer with status \<^verbatim>\<open>error\<close>.\<close>

fun is_rejection :: "event \<Rightarrow> bool" where
  "is_rejection (Done (Rejected m)) = True"
| "is_rejection _ = False"

fun is_terminal :: "event \<Rightarrow> bool" where
  "is_terminal (Done (Resolved d)) = (status d = ''completed'' \<or> status d = ''error'')"
| "is_terminal _ = False"

fun is_completed :: "event \<Rightarrow> bool" where
  "is_completed (Done (Resolved d)) = (status d = ''completed'')"
| "is_completed _ = False"

fun is_error :: "event \<Rightarrow> bool" where
  "is_error (Done (Resolved d)) = (status d = ''error'')"
| "is_error _ = False"

definition rejections :: "event list \<Rightarrow> nat" where
  "rejections evs = length (filter is_rejection evs)"

subsection \<open>A sample form\<close>

text \<open>A form as the user may have filled it in, and a \<^verbatim>\<open>URL\<close> constructor that knows
  three addresses.\<close>

definition sample_form :: client where
  "sample_form =
     \<lparr>url = ''https://youtu.be/abc'', platform = ''youtube'', format = ''mp3'',
      downloading = False, progress = 0, message = [], error = [],
      snack = \<lparr>sb_open = False, sb_message = [], sb_severity = ''info''\<rparr>,
      baseURL = ''http://localhost:3002'', requests = [], navigations = [],
      downloadId = [], retryCount = 0, interval = None, pending = 0\<rparr>"

definition sample_hostname :: "string \<Rightarrow> string option" where
  "sample_hostname u =
     (if u = ''https://youtu.be/abc'' then Some ''youtu.be''
      else if u = ''https://vimeo.com/1'' then Some ''vimeo.com''
      else if u = ''https://www.tiktok.com/@a/video/1'' then Some ''www.tiktok.com''
      else None)"

definition sample_started :: post_data where
  "sample_started = \<lparr>download_id = ''j1'', post_status = ''started''\<rparr>"

definition sample_running :: progress_data where
  "sample_running =
     \<lparr>status = ''running'', downloadProgress = Some 40, statusMessage = Some ''Downloading''\<rparr>"

definition sample_completed :: progress_data where
  "sample_completed =
     \<lparr>status = ''completed'', downloadProgress = Some 100, statusMessage = Some ''Done''\<rparr>"

section \<open>The FFmpeg setup script (setup_ffmpeg.js)\<close>

text \<open>
  The script opens a write stream on \<^verbatim>\<open>ffmpeg.zip\<close>, starts the HTTPS request and
  registers two handlers: \<^verbatim>\<open>finish\<close> on the file, \<^verbatim>\<open>error\<close> on the request. The
  model keeps what the handlers touch: whether the archive and the target directory
  exist, the console, and an exception that no handler caught.
\<close>

record disk =
  zip_present :: bool
  dir_present :: bool
  console :: "string list"
  uncaught :: "string option"

text \<open>
  What the environment decides: how the download ends (the request emits
  \<^verbatim>\<open>error\<close>; the file emits \<^verbatim>\<open>finish\<close>; or neither, when the response breaks off
  and the stream never finishes), whether \<^verbatim>\<open>mkdirSync\<close> succeeds, and whether the
  PowerShell command run by \<^verbatim>\<open>execSync\<close> exits with 0.
\<close>

datatype download_end =
  RequestError
| FileFinished
| NeverFinished

record setup_env =
  download_end :: download_end
  mkdir_ok :: bool
  expand_ok :: bool

text \<open>\<^verbatim>\<open>fs.createWriteStream(DOWNLOAD_PATH)\<close> creates the file.\<close>

definition createWriteStream :: "disk \<Rightarrow> disk" where
  "createWriteStream d = d\<lparr>zip_present := True\<rparr>"

text \<open>\<^verbatim>\<open>fs.unlinkSync(DOWNLOAD_PATH)\<close> throws when there is no such file.\<close>

definition unlinkSync :: "disk \<Rightarrow> string + disk" where
  "unlinkSync d = (if zip_present d then Inr (d\<lparr>zip_present := False\<rparr>) else Inl ''ENOENT'')"

definition log_line :: "string \<Rightarrow> disk \<Rightarrow> disk" where
  "log_line l d = d\<lparr>console := console d @ [l]\<rparr>"

text \<open>The \<^verbatim>\<open>finish\<close> handler. An exception of \<^verbatim>\<open>mkdirSync\<close> is outside the
  \<^verbatim>\<open>try\<close>; one of \<^verbatim>\<open>execSync\<close> or of \<^verbatim>\<open>unlinkSync\<close> is inside it.\<close>

definition on_finish :: "setup_env \<Rightarrow> disk \<Rightarrow> disk" where
  "on_finish env d =
     (let d1 = log_line ''Download completed. Extracting...'' d in
      if \<not> dir_present d1 \<and> \<not> mkdir_ok env then d1\<lparr>uncaught := Some ''mkdirSync''\<rparr>
      else
        (let d2 = d1\<lparr>dir_present := True\<rparr> in
         if \<not> expand_ok env then log_line ''Error during extraction:'' d2
         else
           (let d3 = log_line ''Extraction completed.'' d2 in
            case unlinkSync d3 of
              Inl e \<Rightarrow> log_line ''Error during extraction:'' d3
            | Inr d4 \<Rightarrow>
                log_line ''FFmpeg setup completed successfully!''
                  (log_line ''Cleaned up temporary files.'' d4))))"

text \<open>The \<^verbatim>\<open>error\<close> handler of the request.\<close>

definition on_error :: "disk \<Rightarrow> disk" where
  "on_error d =
     (let d1 = log_line ''Error downloading FFmpeg:'' d in
      case unlinkSync d1 of
        Inl e \<Rightarrow> d1\<lparr>uncaught := Some e\<rparr>
      | Inr d2 \<Rightarrow> d2)"

definition setup_ffmpeg :: "setup_env \<Rightarrow> disk \<Rightarrow> disk" where
  "setup_ffmpeg env d =
     (let d1 = createWriteStream (log_line ''Downloading FFmpeg...'' d) in
      case download_end env of
        RequestError \<Rightarrow> on_error d1
      | FileFinished \<Rightarrow> on_finish env d1
      | NeverFinished \<Rightarrow> d1)"

section \<open>The Download Job Orchestrator\<close>

text \<open>
  The back end that answers \<^verbatim>\<open>/api/download\<close>, \<^verbatim>\<open>/api/progress/{id}\<close> and
  \<^verbatim>\<open>/api/download/{id}/file\<close> is not among the sources. The definitions of this
  section follow the specification's description of it (sections 3, 4 and 6).
\<close>

text \<open>Modelled from the spec: the error taxonomy of section 7, as far as the Progress
  Cache and the Retrieval Endpoint return it; the back end's own errors are missing.\<close>

datatype orchestrator_error =
  NotFoundError
| NotReadyError

text \<open>Modelled from the spec: the job status of section 4.2 (the back end's job table is
  missing). The produced file's bytes exist only in the completed state, the failure
  reason only in the failed state.\<close>

datatype job_state =
  Queued
| Running
| Completed string
| Failed string

text \<open>Modelled from the spec: the dedup key of section 3, derived from the normalized
  URL, the platform and the target format.\<close>

type_synonym dedup_key = "string \<times> string \<times> string"

text \<open>Modelled from the spec: the Job record of section 3 (the back end's job record is
  missing).\<close>

record job =
  job_key :: dedup_key
  job_state :: job_state
  percent :: nat
  job_message :: string

text \<open>Modelled from the spec: the Job Registry of section 4.1 with its dedup index,
  the id generator, and the list of Fetcher Adapter processes launched so far.\<close>

record registry =
  jobs :: "nat \<rightharpoonup> job"
  active_index :: "dedup_key \<rightharpoonup> nat"
  next_id :: nat
  launched :: "nat list"

text \<open>Modelled from the spec: the registry of a back end that has just started; all
  state is process-lifetime only (section 5).\<close>

definition empty_registry :: registry where
  "empty_registry = \<lparr>jobs = Map.empty, active_index = Map.empty, next_id = 0, launched = []\<rparr>"

text \<open>Modelled from the spec: \<^verbatim>\<open>findActive(key)\<close> of section 4.1, a lookup without
  side effects.\<close>

definition findActive :: "dedup_key \<Rightarrow> registry \<Rightarrow> nat option" where
  "findActive k reg = active_index reg k"

text \<open>Modelled from the spec: \<^verbatim>\<open>registerOrAttach(key)\<close> of section 4.1. An active job
  for the key is returned with \<open>attached = True\<close>; otherwise a new id is allocated and
  a job in state queued, with percent 0, is inserted.\<close>

definition registerOrAttach :: "dedup_key \<Rightarrow> registry \<Rightarrow> (nat \<times> bool) \<times> registry" where
  "registerOrAttach k reg =
     (case findActive k reg of
        Some j \<Rightarrow> ((j, True), reg)
      | None \<Rightarrow>
          (let j = next_id reg in
           ((j, False),
            reg\<lparr>jobs := (jobs reg)(j \<mapsto>
                   \<lparr>job_key = k, job_state = Queued, percent = 0, job_message = []\<rparr>),
                active_index := (active_index reg)(k \<mapsto> j),
                next_id := Suc j\<rparr>)))"

text \<open>Modelled from the spec: \<^verbatim>\<open>release(key)\<close> of section 4.1.\<close>

definition release :: "dedup_key \<Rightarrow> registry \<Rightarrow> registry" where
  "release k reg = reg\<lparr>active_index := (active_index reg)(k := None)\<rparr>"

text \<open>Modelled from the spec: the answer to \<^verbatim>\<open>POST /api/download\<close> of section 6.\<close>

record submit_response =
  resp_download_id :: nat
  resp_status :: string

text \<open>Modelled from the spec: intake of an accepted submission (sections 2 and 4.2).
  An attached submission is answered \<^verbatim>\<open>in_progress\<close>; a new job goes from queued to
  running at once, its Fetcher Adapter is launched, and the answer is \<^verbatim>\<open>started\<close>.\<close>

definition submit :: "dedup_key \<Rightarrow> registry \<Rightarrow> submit_response \<times> registry" where
  "submit k reg =
     (case registerOrAttach k reg of
        ((j, True), reg1) \<Rightarrow> (\<lparr>resp_download_id = j, resp_status = ''in_progress''\<rparr>, reg1)
      | ((j, False), reg1) \<Rightarrow>
          (\<lparr>resp_download_id = j, resp_status = ''started''\<rparr>,
           reg1\<lparr>jobs := (jobs reg1)(j \<mapsto>
                  \<lparr>job_key = k, job_state = Running, percent = 0, job_message = []\<rparr>),
                launched := launched reg1 @ [j]\<rparr>))"

text \<open>Modelled from the spec: the transition running to running of section 4.2. A
  progress event updates percent and message; a percent below the last known one is
  clamped to the last known one.\<close>

definition onProgress :: "nat \<Rightarrow> string \<Rightarrow> job \<Rightarrow> job" where
  "onProgress p m jb = jb\<lparr>percent := max (percent jb) p, job_message := m\<rparr>"

text \<open>Modelled from the spec: the status names of the answer to
  \<^verbatim>\<open>GET /api/progress/{id}\<close> in section 6.\<close>

definition status_name :: "job_state \<Rightarrow> string" where
  "status_name st =
     (case st of
        Queued \<Rightarrow> ''queued''
      | Running \<Rightarrow> ''running''
      | Completed bytes \<Rightarrow> ''completed''
      | Failed reason \<Rightarrow> ''failed'')"

text \<open>Modelled from the spec: the snapshot itself, the triple of status, percent and
  message that \<^verbatim>\<open>getProgress\<close> returns for a known job.\<close>

definition snapshot :: "job \<Rightarrow> string \<times> nat \<times> string" where
  "snapshot jb = (status_name (job_state jb), percent jb, job_message jb)"

text \<open>Modelled from the spec: the percent values a client polling after each progress
  event reads from the Progress Cache.\<close>

fun observed :: "job \<Rightarrow> (nat \<times> string) list \<Rightarrow> nat list" where
  "observed jb [] = []"
| "observed jb ((p, m) # es) =
     fst (snd (snapshot (onProgress p m jb))) # observed (onProgress p m jb) es"

text \<open>Modelled from the spec: the events of the Fetcher Adapter of section 4.3 and what
  the Lifecycle Controller does with them (section 4.2). Only a running job takes
  events; a terminal event releases the dedup key, success forces percent to 100.\<close>

datatype adapter_event =
  ProgressEvent nat string
| SuccessEvent string
| FailureEvent string

text \<open>Modelled from the spec: the Lifecycle Controller's handling of one event of the
  job with the given id.\<close>

definition handle_event :: "nat \<Rightarrow> adapter_event \<Rightarrow> registry \<Rightarrow> registry" where
  "handle_event j ev reg =
     (case jobs reg j of
        None \<Rightarrow> reg
      | Some jb \<Rightarrow>
          if job_state jb \<noteq> Running then reg
          else
            (case ev of
               ProgressEvent p m \<Rightarrow> reg\<lparr>jobs := (jobs reg)(j \<mapsto> onProgress p m jb)\<rparr>
             | SuccessEvent bytes \<Rightarrow>
                 release (job_key jb)
                   (reg\<lparr>jobs := (jobs reg)(j \<mapsto> jb\<lparr>job_state := Completed bytes, percent := 100\<rparr>)\<rparr>)
             | FailureEvent reason \<Rightarrow>
                 release (job_key jb)
                   (reg\<lparr>jobs := (jobs reg)(j \<mapsto>
                          jb\<lparr>job_state := Failed reason, job_message := reason\<rparr>)\<rparr>)))"

text \<open>Modelled from the spec: \<^verbatim>\<open>retrieve(job-id)\<close> of section 4.4. The bytes when the
  job is completed, NotReady while it is queued or running, NotFound when it failed or
  the id is unknown. Retrieval does not change the registry.\<close>

definition retrieve :: "nat \<Rightarrow> registry \<Rightarrow> orchestrator_error + string" where
  "retrieve j reg =
     (case jobs reg j of
        None \<Rightarrow> Inl NotFoundError
      | Some jb \<Rightarrow>
          (case job_state jb of
             Completed bytes \<Rightarrow> Inr bytes
           | Failed reason \<Rightarrow> Inl NotFoundError
           | Queued \<Rightarrow> Inl NotReadyError
           | Running \<Rightarrow> Inl NotReadyError))"







text \<open>The dedup key of the sample form.\<close>

definition sample_key :: dedup_key where
  "sample_key = (''https://youtu.be/abc'', ''youtube'', ''mp3'')"

section \<open>Properties of the front end\<close>

subsection \<open>Validation\<close>

lemma str_or_nonempty: "d \<noteq> [] \<Longrightarrow> str_or v d \<noteq> []"
  by (simp add: str_or_def split: option.splits)

lemma validateUrl_msg: "validateUrl hostname_of plat u = Some e \<Longrightarrow> e \<noteq> []"
  by (auto simp: validateUrl_def Let_def split: option.splits if_splits)

lemma validateUrl_unparsable:
  "hostname_of u = None \<Longrightarrow> validateUrl hostname_of plat u = Some ''Please enter a valid URL''"
  by (simp add: validateUrl_def)

lemma validateUrl_youtube:
  "hostname_of u = Some h \<Longrightarrow> \<not> includes_str (toLowerCase h) ''youtube.com'' \<Longrightarrow>
   \<not> includes_str (toLowerCase h) ''youtu.be'' \<Longrightarrow>
   validateUrl hostname_of PLATFORMS_YOUTUBE u = Some ''Please enter a valid YouTube URL''"
  by (simp add: validateUrl_def)

lemma validateUrl_tiktok:
  "hostname_of u = Some h \<Longrightarrow> \<not> includes_str (toLowerCase h) ''tiktok.com'' \<Longrightarrow>
   validateUrl hostname_of PLATFORMS_TIKTOK u = Some ''Please enter a valid TikTok URL''"
  by (simp add: validateUrl_def PLATFORMS_YOUTUBE_def PLATFORMS_TIKTOK_def)

lemma handleDownload_no_url:
  "url s = [] \<Longrightarrow> handleDownload hostname_of post s = s\<lparr>error := ''Please enter a URL''\<rparr>"
  by (simp add: handleDownload_def)

lemma handleDownload_urlError:
  "url s \<noteq> [] \<Longrightarrow> validateUrl hostname_of (platform s) (url s) = Some e \<Longrightarrow>
   handleDownload hostname_of post s = s\<lparr>error := e\<rparr>"
  using validateUrl_msg [of hostname_of "platform s" "url s" e]
  by (simp add: handleDownload_def str_or_def)

lemma handleDownload_bad_platform:
  "url s \<noteq> [] \<Longrightarrow> validateUrl hostname_of (platform s) (url s) = None \<Longrightarrow>
   platform s \<notin> set PLATFORMS \<Longrightarrow>
   handleDownload hostname_of post s = s\<lparr>error := ''Invalid platform selected''\<rparr>"
  by (simp add: handleDownload_def str_or_def)

lemma handleDownload_bad_format:
  "url s \<noteq> [] \<Longrightarrow> validateUrl hostname_of (platform s) (url s) = None \<Longrightarrow>
   platform s \<in> set PLATFORMS \<Longrightarrow> format s \<notin> set FORMATS \<Longrightarrow>
   handleDownload hostname_of post s = s\<lparr>error := ''Invalid format selected''\<rparr>"
  by (simp add: handleDownload_def str_or_def)

lemma handleDownload_rejects:
  assumes "url s = [] \<or> validateUrl hostname_of (platform s) (url s) \<noteq> None \<or>
           platform s \<notin> set PLATFORMS \<or> format s \<notin> set FORMATS"
  shows "\<exists>e. e \<noteq> [] \<and> handleDownload hostname_of post s = s\<lparr>error := e\<rparr>"
proof (cases "url s = []")
  case True
  then show ?thesis using handleDownload_no_url [of s hostname_of post] by blast
next
  case nonempty: False
  show ?thesis
  proof (cases "validateUrl hostname_of (platform s) (url s)")
    case (Some e)
    then show ?thesis
      using handleDownload_urlError [OF nonempty Some, of post] validateUrl_msg [OF Some] by blast
  next
    case None
    show ?thesis
    proof (cases "platform s \<in> set PLATFORMS")
      case False
      then show ?thesis
        using handleDownload_bad_platform [OF nonempty None False, of post] by blast
    next
      case True
      with assms nonempty None have "format s \<notin> set FORMATS" by simp
      then show ?thesis
        using handleDownload_bad_format [OF nonempty None True, of post] by blast
    qed
  qed
qed

lemma handleDownload_resolved:
  "url s \<noteq> [] \<Longrightarrow> validateUrl hostname_of (platform s) (url s) = None \<Longrightarrow>
   platform s \<in> set PLATFORMS \<Longrightarrow> format s \<in> set FORMATS \<Longrightarrow>
   handleDownload hostname_of (PostResolved r) s =
     s\<lparr>downloading := True, error := [],
       requests := requests s @
         [Post ''/api/download''
            \<lparr>body_url = trim (url s), body_platform = toLowerCase (platform s),
             body_format = toLowerCase (format s)\<rparr>],
       downloadId := download_id r,
       retryCount := 0,
       message := (if post_status r = ''in_progress''
                   then ''Download already in progress...'' else ''Starting download...''),
       interval := Some POLL_DELAY\<rparr>"
  by (simp add: handleDownload_def str_or_def Let_def)

lemma handleDownload_rejected:
  "url s \<noteq> [] \<Longrightarrow> validateUrl hostname_of (platform s) (url s) = None \<Longrightarrow>
   platform s \<in> set PLATFORMS \<Longrightarrow> format s \<in> set FORMATS \<Longrightarrow>
   handleDownload hostname_of PostRejected s =
     s\<lparr>downloading := True, error := [],
       requests := requests s @
         [Post ''/api/download''
            \<lparr>body_url = trim (url s), body_platform = toLowerCase (platform s),
             body_format = toLowerCase (format s)\<rparr>]\<rparr>"
  by (simp add: handleDownload_def str_or_def Let_def)

text \<open>
  Claim C2. A submission with a missing URL, a URL that the \<^verbatim>\<open>URL\<close> constructor
  rejects, a URL whose host name does not match the selected platform, a platform
  outside \<^verbatim>\<open>PLATFORMS\<close> or a format outside \<^verbatim>\<open>FORMATS\<close> is rejected before the POST:
  \<^verbatim>\<open>handleDownload\<close> only sets a non-empty error message, whatever the back end would
  have answered, and the list of requests sent is unchanged.
\<close>

theorem invalid_submission_sends_no_post:
  assumes "url s = []
     \<or> hostname_of (url s) = None
     \<or> (\<exists>h. hostname_of (url s) = Some h \<and> platform s = PLATFORMS_YOUTUBE \<and>
            \<not> includes_str (toLowerCase h) ''youtube.com'' \<and>
            \<not> includes_str (toLowerCase h) ''youtu.be'')
     \<or> (\<exists>h. hostname_of (url s) = Some h \<and> platform s = PLATFORMS_TIKTOK \<and>
            \<not> includes_str (toLowerCase h) ''tiktok.com'')
     \<or> platform s \<notin> set PLATFORMS
     \<or> format s \<notin> set FORMATS"
  shows "(\<exists>e. e \<noteq> [] \<and> handleDownload hostname_of post s = s\<lparr>error := e\<rparr>) \<and>
         requests (handleDownload hostname_of post s) = requests s"
proof -
  have "url s = [] \<or> validateUrl hostname_of (platform s) (url s) \<noteq> None \<or>
        platform s \<notin> set PLATFORMS \<or> format s \<notin> set FORMATS"
    using assms validateUrl_unparsable [of hostname_of "url s" "platform s"]
      validateUrl_youtube [of hostname_of "url s"] validateUrl_tiktok [of hostname_of "url s"]
    by auto
  from handleDownload_rejects [OF this, of post]
  obtain e where e: "e \<noteq> []" "handleDownload hostname_of post s = s\<lparr>error := e\<rparr>" by blast
  then show ?thesis by auto
qed

theorem invalid_submission_sends_no_post_witness:
  "url (sample_form\<lparr>url := []\<rparr>) = [] \<and>
   requests (handleDownload sample_hostname (PostResolved sample_started) (sample_form\<lparr>url := []\<rparr>)) = [] \<and>
   sample_hostname (url (sample_form\<lparr>url := ''not a url''\<rparr>)) = None \<and>
   requests (handleDownload sample_hostname (PostResolved sample_started)
     (sample_form\<lparr>url := ''not a url''\<rparr>)) = [] \<and>
   sample_hostname (url (sample_form\<lparr>url := ''https://vimeo.com/1''\<rparr>)) = Some ''vimeo.com'' \<and>
   platform (sample_form\<lparr>url := ''https://vimeo.com/1''\<rparr>) = PLATFORMS_YOUTUBE \<and>
   \<not> includes_str (toLowerCase ''vimeo.com'') ''youtube.com'' \<and>
   \<not> includes_str (toLowerCase ''vimeo.com'') ''youtu.be'' \<and>
   requests (handleDownload sample_hostname (PostResolved sample_started)
     (sample_form\<lparr>url := ''https://vimeo.com/1''\<rparr>)) = [] \<and>
   format (sample_form\<lparr>format := ''avi''\<rparr>) \<notin> set FORMATS \<and>
   requests (handleDownload sample_hostname (PostResolved sample_started)
     (sample_form\<lparr>format := ''avi''\<rparr>)) = []"
  using invalid_submission_sends_no_post
      [of "sample_form\<lparr>url := []\<rparr>" sample_hostname "PostResolved sample_started"]
    invalid_submission_sends_no_post
      [of "sample_form\<lparr>url := ''not a url''\<rparr>" sample_hostname "PostResolved sample_started"]
    invalid_submission_sends_no_post
      [of "sample_form\<lparr>url := ''https://vimeo.com/1''\<rparr>" sample_hostname
          "PostResolved sample_started"]
    invalid_submission_sends_no_post
      [of "sample_form\<lparr>format := ''avi''\<rparr>" sample_hostname "PostResolved sample_started"]
  by (simp add: sample_form_def sample_hostname_def FORMATS_def FORMATS_MP4_def FORMATS_MP3_def
      PLATFORMS_YOUTUBE_def includes_str_def toLowerCase_def lowerChar_def sublist_code)

subsection \<open>One step of the polling callback\<close>

lemma tick_fields:
  "interval (tick s) = interval s"
  "retryCount (tick s) = retryCount s"
  "downloading (tick s) = downloading s"
  "error (tick s) = error s"
  "navigations (tick s) = navigations s"
  "downloadId (tick s) = downloadId s"
  "baseURL (tick s) = baseURL s"
  by (simp_all add: tick_def split: option.splits)

lemma requests_tick:
  "requests (tick s) =
     requests s @ (if interval s = None then [] else [Get (''/api/progress/'' @ downloadId s)])"
  by (simp add: tick_def split: option.splits)

lemma settle_Resolved_fields:
  "interval (settle (Resolved d) s) =
     (if status d = ''completed'' \<or> status d = ''error'' then None else interval s)"
  "retryCount (settle (Resolved d) s) = retryCount s"
  "downloading (settle (Resolved d) s) =
     (if status d = ''completed'' \<or> status d = ''error'' then False else downloading s)"
  "error (settle (Resolved d) s) =
     (if status d = ''error'' then str_or (statusMessage d) ''Download failed'' else error s)"
  "navigations (settle (Resolved d) s) =
     navigations s @
       (if status d = ''completed''
        then [baseURL s @ ''/api/download/'' @ downloadId s @ ''/file''] else [])"
  "requests (settle (Resolved d) s) = requests s"
  "downloadId (settle (Resolved d) s) = downloadId s"
  "baseURL (settle (Resolved d) s) = baseURL s"
  "progress (settle (Resolved d) s) = num_or (downloadProgress d) 0"
  "message (settle (Resolved d) s) = str_or (statusMessage d) []"
  by (simp_all add: settle_def Let_def)

lemma settle_Rejected_fields:
  "interval (settle (Rejected m) s) = (if 3 \<le> Suc (retryCount s) then None else interval s)"
  "retryCount (settle (Rejected m) s) = Suc (retryCount s)"
  "downloading (settle (Rejected m) s) = (if 3 \<le> Suc (retryCount s) then False else downloading s)"
  "error (settle (Rejected m) s) =
     (if 3 \<le> Suc (retryCount s) then str_or m ''Failed to get download progress'' else error s)"
  "navigations (settle (Rejected m) s) = navigations s"
  "requests (settle (Rejected m) s) = requests s"
  "downloadId (settle (Rejected m) s) = downloadId s"
  "baseURL (settle (Rejected m) s) = baseURL s"
  by (simp_all add: settle_def Let_def MAX_RETRIES_def)

lemma feasible_Cons:
  "feasible (e # es) s = ((e = Tick \<or> 0 < pending s) \<and> feasible es (step e s))"
  by (cases e) simp_all

lemma step_cases:
  assumes "e = Tick \<or> 0 < pending s"
  obtains (Tick) "e = Tick" "step e s = tick s"
    | (Resolved) d where "e = Done (Resolved d)"
        "step e s = settle (Resolved d) (s\<lparr>pending := pending s - 1\<rparr>)"
    | (Rejected) m where "e = Done (Rejected m)"
        "step e s = settle (Rejected m) (s\<lparr>pending := pending s - 1\<rparr>)"
proof (cases e)
  case Tick
  then show ?thesis using that(1) by (simp add: step_def)
next
  case (Done r)
  with assms have p: "pending s \<noteq> 0" by simp
  show ?thesis
  proof (cases r)
    case (Resolved d)
    with Done p show ?thesis using that(2) by (simp add: step_def)
  next
    case (Rejected m)
    with Done p show ?thesis using that(3) by (simp add: step_def)
  qed
qed

lemma interval_step:
  assumes "e = Tick \<or> 0 < pending s"
  shows "interval (step e s) =
     (if is_terminal e \<or> (is_rejection e \<and> 3 \<le> Suc (retryCount s)) then None else interval s)"
  using assms
  by (cases e s rule: step_cases)
     (simp_all add: tick_fields settle_Resolved_fields settle_Rejected_fields)

lemma retryCount_step:
  assumes "e = Tick \<or> 0 < pending s"
  shows "retryCount (step e s) = (if is_rejection e then Suc (retryCount s) else retryCount s)"
  using assms
  by (cases e s rule: step_cases)
     (simp_all add: tick_fields settle_Resolved_fields settle_Rejected_fields)

lemma downloading_step:
  assumes "e = Tick \<or> 0 < pending s"
  shows "downloading (step e s) =
     (if is_terminal e \<or> (is_rejection e \<and> 3 \<le> Suc (retryCount s)) then False else downloading s)"
  using assms
  by (cases e s rule: step_cases)
     (simp_all add: tick_fields settle_Resolved_fields settle_Rejected_fields)

lemma error_step:
  assumes "e = Tick \<or> 0 < pending s"
  shows "(error (step e s) \<noteq> []) =
     (is_error e \<or> (is_rejection e \<and> 3 \<le> Suc (retryCount s)) \<or> error s \<noteq> [])"
  using assms
  by (cases e s rule: step_cases)
     (simp_all add: tick_fields settle_Resolved_fields settle_Rejected_fields str_or_nonempty)

lemma navigations_step:
  assumes "e = Tick \<or> 0 < pending s"
  shows "navigations (step e s) =
     navigations s @
       (if is_completed e then [baseURL s @ ''/api/download/'' @ downloadId s @ ''/file''] else [])"
  using assms
  by (cases e s rule: step_cases)
     (simp_all add: tick_fields settle_Resolved_fields settle_Rejected_fields)

lemma requests_step:
  assumes "e = Tick \<or> 0 < pending s"
  shows "requests (step e s) =
     requests s @
       (if e = Tick \<and> interval s \<noteq> None then [Get (''/api/progress/'' @ downloadId s)] else [])"
  using assms
  by (cases e s rule: step_cases)
     (simp_all add: requests_tick settle_Resolved_fields settle_Rejected_fields)

lemma constant_step:
  assumes "e = Tick \<or> 0 < pending s"
  shows "downloadId (step e s) = downloadId s" "baseURL (step e s) = baseURL s"
  using assms
  by (cases e s rule: step_cases;
      simp add: tick_fields settle_Resolved_fields settle_Rejected_fields)+

subsection \<open>Runs of the polling callback\<close>

lemma interval_run:
  "feasible evs s \<Longrightarrow>
   (interval (run evs s) = None) =
     (interval s = None \<or> (\<exists>e. e \<in> set evs \<and> is_terminal e) \<or>
      (0 < rejections evs \<and> 3 \<le> retryCount s + rejections evs))"
proof (induction evs arbitrary: s)
  case Nil
  then show ?case by (simp add: rejections_def)
next
  case (Cons e es)
  from Cons.prems have ok: "e = Tick \<or> 0 < pending s" and f: "feasible es (step e s)"
    by (simp_all add: feasible_Cons)
  show ?case
    using Cons.IH [OF f] interval_step [OF ok] retryCount_step [OF ok]
    by (auto simp: rejections_def)
qed

lemma interval_run_delay:
  "feasible evs s \<Longrightarrow> interval (run evs s) = None \<or> interval (run evs s) = interval s"
proof (induction evs arbitrary: s)
  case Nil
  then show ?case by simp
next
  case (Cons e es)
  from Cons.prems have ok: "e = Tick \<or> 0 < pending s" and f: "feasible es (step e s)"
    by (simp_all add: feasible_Cons)
  show ?case
    using Cons.IH [OF f] interval_step [OF ok] by (auto split: if_splits)
qed

lemma constant_run:
  "feasible evs s \<Longrightarrow> downloadId (run evs s) = downloadId s \<and> baseURL (run evs s) = baseURL s"
proof (induction evs arbitrary: s)
  case Nil
  then show ?case by simp
next
  case (Cons e es)
  from Cons.prems have ok: "e = Tick \<or> 0 < pending s" and f: "feasible es (step e s)"
    by (simp_all add: feasible_Cons)
  show ?case
    using Cons.IH [OF f] constant_step [OF ok] by simp
qed

lemma requests_run:
  "feasible evs s \<Longrightarrow>
   \<exists>n. requests (run evs s) = requests s @ replicate n (Get (''/api/progress/'' @ downloadId s))"
proof (induction evs arbitrary: s)
  case Nil
  then show ?case by simp
next
  case (Cons e es)
  from Cons.prems have ok: "e = Tick \<or> 0 < pending s" and f: "feasible es (step e s)"
    by (simp_all add: feasible_Cons)
  from Cons.IH [OF f] obtain n where
    n: "requests (run es (step e s)) =
          requests (step e s) @ replicate n (Get (''/api/progress/'' @ downloadId (step e s)))"
    by blast
  show ?case
  proof (cases "e = Tick \<and> interval s \<noteq> None")
    case True
    with n requests_step [OF ok] constant_step(1) [OF ok]
    have "requests (run (e # es) s) =
            requests s @ replicate (Suc n) (Get (''/api/progress/'' @ downloadId s))"
      by simp
    then show ?thesis by blast
  next
    case False
    with n requests_step [OF ok] constant_step(1) [OF ok]
    have "requests (run (e # es) s) =
            requests s @ replicate n (Get (''/api/progress/'' @ downloadId s))"
      by auto
    then show ?thesis by blast
  qed
qed

lemma stopped_stays:
  "feasible evs s \<Longrightarrow> \<not> downloading s \<Longrightarrow> error s \<noteq> [] \<Longrightarrow>
   \<not> downloading (run evs s) \<and> error (run evs s) \<noteq> []"
proof (induction evs arbitrary: s)
  case Nil
  then show ?case by simp
next
  case (Cons e es)
  from Cons.prems have ok: "e = Tick \<or> 0 < pending s" and f: "feasible es (step e s)"
    by (simp_all add: feasible_Cons)
  have "\<not> downloading (step e s)" "error (step e s) \<noteq> []"
    using Cons.prems(2,3) downloading_step [OF ok] error_step [OF ok] by auto
  from Cons.IH [OF f this] show ?case by simp
qed

lemma retries_exhausted_run:
  "feasible evs s \<Longrightarrow> 0 < rejections evs \<Longrightarrow> 3 \<le> retryCount s + rejections evs \<Longrightarrow>
   \<not> downloading (run evs s) \<and> error (run evs s) \<noteq> []"
proof (induction evs arbitrary: s)
  case Nil
  then show ?case by (simp add: rejections_def)
next
  case (Cons e es)
  from Cons.prems have ok: "e = Tick \<or> 0 < pending s" and f: "feasible es (step e s)"
    by (simp_all add: feasible_Cons)
  show ?case
  proof (cases "0 < rejections es")
    case True
    moreover have "3 \<le> retryCount (step e s) + rejections es"
      using Cons.prems(3) retryCount_step [OF ok] by (auto simp: rejections_def)
    ultimately show ?thesis using Cons.IH [OF f] by simp
  next
    case False
    with Cons.prems(2,3) have e: "is_rejection e" "3 \<le> Suc (retryCount s)"
      by (auto simp: rejections_def split: if_splits)
    have "\<not> downloading (step e s)" "error (step e s) \<noteq> []"
      using e downloading_step [OF ok] error_step [OF ok] by auto
    from stopped_stays [OF f this] show ?thesis by simp
  qed
qed

lemma navigations_run:
  "feasible evs s \<Longrightarrow>
   navigations (run evs s) =
     navigations s @
       replicate (length (filter is_completed evs))
         (baseURL s @ ''/api/download/'' @ downloadId s @ ''/file'')"
proof (induction evs arbitrary: s)
  case Nil
  then show ?case by simp
next
  case (Cons e es)
  from Cons.prems have ok: "e = Tick \<or> 0 < pending s" and f: "feasible es (step e s)"
    by (simp_all add: feasible_Cons)
  show ?case
    using Cons.IH [OF f] navigations_step [OF ok] constant_step [OF ok] by simp
qed

lemma idle_run: "interval s = None \<Longrightarrow> pending s = 0 \<Longrightarrow> run evs s = s"
proof (induction evs)
  case Nil
  then show ?case by simp
next
  case (Cons e es)
  then have "step e s = s" by (cases e) (simp_all add: step_def tick_def)
  with Cons show ?case by simp
qed

subsection \<open>The polling contract\<close>

text \<open>
  Claim C1. After an accepted submission whose POST resolved, \<^verbatim>\<open>handleDownload\<close> has
  set an interval timer of 1000 ms. Along every run of the event loop: the requests
  sent are progress requests \<^verbatim>\<open>GET /api/progress/{id}\<close> for the id of the POST's
  answer, one per firing of the timer while it is set and none once it is cleared; the
  timer is cleared exactly when three progress checks have ended in an error or an
  answer carried the status \<^verbatim>\<open>completed\<close> or \<^verbatim>\<open>error\<close>; and after three errors the
  download flag is off and the error message is not empty.
\<close>

theorem polling_contract:
  assumes valid: "url s \<noteq> []" "validateUrl hostname_of (platform s) (url s) = None"
      "platform s \<in> set PLATFORMS" "format s \<in> set FORMATS"
    and start: "s0 = handleDownload hostname_of (PostResolved r) s"
    and feasible: "feasible evs s0"
  shows "interval s0 = Some 1000 \<and>
    (\<exists>n. requests (run evs s0) =
            requests s0 @ replicate n (Get (''/api/progress/'' @ download_id r))) \<and>
    requests (step Tick (run evs s0)) =
      requests (run evs s0) @
        (if interval (run evs s0) = None then []
         else [Get (''/api/progress/'' @ download_id r)]) \<and>
    (interval (run evs s0) = None \<or> interval (run evs s0) = Some 1000) \<and>
    (interval (run evs s0) = None) =
      (3 \<le> rejections evs \<or> (\<exists>e. e \<in> set evs \<and> is_terminal e)) \<and>
    (3 \<le> rejections evs \<longrightarrow> \<not> downloading (run evs s0) \<and> error (run evs s0) \<noteq> [])"
proof -
  have s0: "interval s0 = Some 1000" "retryCount s0 = 0" "downloadId s0 = download_id r"
    using handleDownload_resolved [OF valid, of r] start by (simp_all add: POLL_DELAY_def)
  have a: "\<exists>n. requests (run evs s0) =
                 requests s0 @ replicate n (Get (''/api/progress/'' @ download_id r))"
    using requests_run [OF feasible] s0(3) by simp
  have b: "requests (step Tick (run evs s0)) =
             requests (run evs s0) @
               (if interval (run evs s0) = None then []
                else [Get (''/api/progress/'' @ download_id r)])"
    using constant_run [OF feasible] s0(3) by (simp add: step_def requests_tick)
  have c: "interval (run evs s0) = None \<or> interval (run evs s0) = Some 1000"
    using interval_run_delay [OF feasible] s0(1) by simp
  have d: "(interval (run evs s0) = None) =
             (3 \<le> rejections evs \<or> (\<exists>e. e \<in> set evs \<and> is_terminal e))"
    using interval_run [OF feasible] s0(1,2) by auto
  have e: "3 \<le> rejections evs \<longrightarrow> \<not> downloading (run evs s0) \<and> error (run evs s0) \<noteq> []"
    using retries_exhausted_run [OF feasible] s0(2) by simp
  from s0(1) a b c d e show ?thesis by blast
qed

theorem polling_contract_witness:
  "url sample_form \<noteq> [] \<and>
   validateUrl sample_hostname (platform sample_form) (url sample_form) = None \<and>
   platform sample_form \<in> set PLATFORMS \<and> format sample_form \<in> set FORMATS \<and>
   feasible [Tick, Done (Rejected None), Tick, Done (Resolved sample_running), Tick, Tick,
             Done (Rejected None), Done (Rejected (Some ''gone''))]
     (handleDownload sample_hostname (PostResolved sample_started) sample_form) \<and>
   rejections [Tick, Done (Rejected None), Tick, Done (Resolved sample_running), Tick, Tick,
             Done (Rejected None), Done (Rejected (Some ''gone''))] = 3 \<and>
   interval (handleDownload sample_hostname (PostResolved sample_started) sample_form) = Some 1000 \<and>
   interval (run [Tick, Done (Rejected None), Tick, Done (Resolved sample_running), Tick, Tick,
             Done (Rejected None), Done (Rejected (Some ''gone''))]
     (handleDownload sample_hostname (PostResolved sample_started) sample_form)) = None \<and>
   \<not> downloading (run [Tick, Done (Rejected None), Tick, Done (Resolved sample_running), Tick, Tick,
             Done (Rejected None), Done (Rejected (Some ''gone''))]
     (handleDownload sample_hostname (PostResolved sample_started) sample_form)) \<and>
   error (run [Tick, Done (Rejected None), Tick, Done (Resolved sample_running), Tick, Tick,
             Done (Rejected None), Done (Rejected (Some ''gone''))]
     (handleDownload sample_hostname (PostResolved sample_started) sample_form)) \<noteq> []"
proof -
  have v: "url sample_form \<noteq> []"
    "validateUrl sample_hostname (platform sample_form) (url sample_form) = None"
    "platform sample_form \<in> set PLATFORMS" "format sample_form \<in> set FORMATS"
    by code_simp+
  have f: "feasible [Tick, Done (Rejected None), Tick, Done (Resolved sample_running), Tick, Tick,
             Done (Rejected None), Done (Rejected (Some ''gone''))]
     (handleDownload sample_hostname (PostResolved sample_started) sample_form)"
    by code_simp
  have r: "rejections [Tick, Done (Rejected None), Tick, Done (Resolved sample_running), Tick, Tick,
             Done (Rejected None), Done (Rejected (Some ''gone''))] = 3"
    by (simp add: rejections_def)
  from polling_contract [OF v refl f] v f r show ?thesis by simp
qed

subsection \<open>A rejected POST\<close>

text \<open>
  Claim C10. When the form is valid and the POST to \<^verbatim>\<open>/api/download\<close> is rejected,
  \<^verbatim>\<open>handleDownload\<close> stops at the \<^verbatim>\<open>await\<close>: the POST is the only request, no timer
  is set, the download flag stays on and the error message stays empty, and since no
  timer fires and no request is in flight nothing changes this afterwards.
\<close>

theorem rejected_post_is_unhandled:
  assumes valid: "url s \<noteq> []" "validateUrl hostname_of (platform s) (url s) = None"
      "platform s \<in> set PLATFORMS" "format s \<in> set FORMATS"
    and idle: "interval s = None" "pending s = 0"
    and start: "s1 = handleDownload hostname_of PostRejected s"
  shows "requests s1 =
      requests s @
        [Post ''/api/download''
           \<lparr>body_url = trim (url s), body_platform = toLowerCase (platform s),
            body_format = toLowerCase (format s)\<rparr>] \<and>
    interval s1 = None \<and> run evs s1 = s1 \<and>
    downloading (run evs s1) \<and> error (run evs s1) = [] \<and>
    requests (run evs s1) = requests s1"
proof -
  have s1: "s1 = s\<lparr>downloading := True, error := [],
       requests := requests s @
         [Post ''/api/download''
            \<lparr>body_url = trim (url s), body_platform = toLowerCase (platform s),
             body_format = toLowerCase (format s)\<rparr>]\<rparr>"
    using handleDownload_rejected [OF valid] start by simp
  have i: "interval s1 = None" "pending s1 = 0" using idle by (simp_all add: s1)
  have r: "run evs s1 = s1" by (rule idle_run [OF i])
  show ?thesis unfolding r using i(1) by (simp add: s1)
qed

theorem rejected_post_is_unhandled_witness:
  "url sample_form \<noteq> [] \<and>
   validateUrl sample_hostname (platform sample_form) (url sample_form) = None \<and>
   platform sample_form \<in> set PLATFORMS \<and> format sample_form \<in> set FORMATS \<and>
   interval sample_form = None \<and> pending sample_form = 0 \<and>
   downloading (run [Tick, Tick, Done (Rejected None), Tick]
     (handleDownload sample_hostname PostRejected sample_form)) \<and>
   error (run [Tick, Tick, Done (Rejected None), Tick]
     (handleDownload sample_hostname PostRejected sample_form)) = [] \<and>
   requests (run [Tick, Tick, Done (Rejected None), Tick]
     (handleDownload sample_hostname PostRejected sample_form)) =
     [Post ''/api/download''
        \<lparr>body_url = ''https://youtu.be/abc'', body_platform = ''youtube'', body_format = ''mp3''\<rparr>]"
proof -
  have v: "url sample_form \<noteq> []"
    "validateUrl sample_hostname (platform sample_form) (url sample_form) = None"
    "platform sample_form \<in> set PLATFORMS" "format sample_form \<in> set FORMATS"
    by code_simp+
  have i: "interval sample_form = None" "pending sample_form = 0"
    by (simp_all add: sample_form_def)
  have b: "trim (url sample_form) = ''https://youtu.be/abc''"
    "toLowerCase (platform sample_form) = ''youtube''"
    "toLowerCase (format sample_form) = ''mp3''"
    "requests sample_form = []"
    by code_simp+
  note t = rejected_post_is_unhandled [OF v i refl, of "[Tick, Tick, Done (Rejected None), Tick]"]
  from t have d: "downloading (run [Tick, Tick, Done (Rejected None), Tick]
      (handleDownload sample_hostname PostRejected sample_form))"
    and e: "error (run [Tick, Tick, Done (Rejected None), Tick]
      (handleDownload sample_hostname PostRejected sample_form)) = []"
    by blast+
  from t have "requests (run [Tick, Tick, Done (Rejected None), Tick]
      (handleDownload sample_hostname PostRejected sample_form)) =
      requests sample_form @
        [Post ''/api/download''
           \<lparr>body_url = trim (url sample_form), body_platform = toLowerCase (platform sample_form),
            body_format = toLowerCase (format sample_form)\<rparr>]"
    by (elim conjE) (rule trans)
  then have q: "requests (run [Tick, Tick, Done (Rejected None), Tick]
      (handleDownload sample_hostname PostRejected sample_form)) =
      [Post ''/api/download''
        \<lparr>body_url = ''https://youtu.be/abc'', body_platform = ''youtube'', body_format = ''mp3''\<rparr>]"
    unfolding b by simp
  from v i d e q show ?thesis by blast
qed

section \<open>Properties of the setup script\<close>

lemma zip_on_error: "zip_present d \<Longrightarrow> \<not> zip_present (on_error d)"
  by (simp add: on_error_def unlinkSync_def log_line_def)

lemma zip_on_finish:
  "zip_present d \<Longrightarrow>
   zip_present (on_finish env d) = (\<not> ((dir_present d \<or> mkdir_ok env) \<and> expand_ok env))"
  by (auto simp: on_finish_def unlinkSync_def log_line_def Let_def)

text \<open>
  Claim C9. After the script has run, \<^verbatim>\<open>ffmpeg.zip\<close> is gone exactly when the request
  emitted \<^verbatim>\<open>error\<close>, or the file finished and the extraction succeeded (the target
  directory was there or could be made, and the PowerShell command exited with 0).
  When the file finished and the PowerShell command failed, the archive is still on
  disk.
\<close>

theorem archive_removed_iff:
  "(\<not> zip_present (setup_ffmpeg env d)) =
     (download_end env = RequestError \<or>
      download_end env = FileFinished \<and> (dir_present d \<or> mkdir_ok env) \<and> expand_ok env) \<and>
   zip_present (setup_ffmpeg (env\<lparr>download_end := FileFinished, expand_ok := False\<rparr>) d)"
proof -
  have z: "zip_present (createWriteStream (log_line ''Downloading FFmpeg...'' d))"
    by (simp add: createWriteStream_def)
  have p: "dir_present (createWriteStream (log_line ''Downloading FFmpeg...'' d)) = dir_present d"
    by (simp add: createWriteStream_def log_line_def)
  have a: "(\<not> zip_present (setup_ffmpeg env d)) =
     (download_end env = RequestError \<or>
      download_end env = FileFinished \<and> (dir_present d \<or> mkdir_ok env) \<and> expand_ok env)"
    using zip_on_error [OF z] zip_on_finish [OF z, of env] z p
    by (cases "download_end env") (simp_all add: setup_ffmpeg_def Let_def)
  have b: "zip_present (setup_ffmpeg (env\<lparr>download_end := FileFinished, expand_ok := False\<rparr>) d)"
    using zip_on_finish [OF z, of "env\<lparr>download_end := FileFinished, expand_ok := False\<rparr>"]
    by (simp add: setup_ffmpeg_def Let_def)
  from a b show ?thesis by blast
qed

section \<open>Properties of the orchestrator\<close>

subsection \<open>Submission\<close>

text \<open>
  Claim C3. The answer to an accepted submission carries a download id and the status
  \<^verbatim>\<open>started\<close> or \<^verbatim>\<open>in_progress\<close>. When the registry holds an active job for the key,
  the status is \<^verbatim>\<open>in_progress\<close>, the id is that job's, no Fetcher Adapter is launched
  and the registry is unchanged; otherwise the status is \<^verbatim>\<open>started\<close> and the id is a
  newly allocated one.
\<close>

theorem submit_response_contract:
  "resp_status (fst (submit k reg)) \<in> {''started'', ''in_progress''} \<and>
   (\<forall>j. findActive k reg = Some j \<longrightarrow>
      fst (submit k reg) = \<lparr>resp_download_id = j, resp_status = ''in_progress''\<rparr> \<and>
      snd (submit k reg) = reg) \<and>
   (findActive k reg = None \<longrightarrow>
      fst (submit k reg) = \<lparr>resp_download_id = next_id reg, resp_status = ''started''\<rparr> \<and>
      launched (snd (submit k reg)) = launched reg @ [next_id reg] \<and>
      findActive k (snd (submit k reg)) = Some (next_id reg))"
  by (cases "findActive k reg")
     (simp_all add: submit_def registerOrAttach_def Let_def findActive_def)

theorem submit_response_contract_witness:
  "findActive sample_key empty_registry = None \<and>
   fst (submit sample_key empty_registry) = \<lparr>resp_download_id = 0, resp_status = ''started''\<rparr> \<and>
   findActive sample_key (snd (submit sample_key empty_registry)) = Some 0 \<and>
   fst (submit sample_key (snd (submit sample_key empty_registry))) =
     \<lparr>resp_download_id = 0, resp_status = ''in_progress''\<rparr> \<and>
   launched (snd (submit sample_key (snd (submit sample_key empty_registry)))) = [0]"
proof -
  have n: "findActive sample_key empty_registry = None"
    by (simp add: findActive_def empty_registry_def)
  have z: "next_id empty_registry = 0" "launched empty_registry = []"
    by (simp_all add: empty_registry_def)
  note first = submit_response_contract [of sample_key empty_registry]
  from first n z have a: "fst (submit sample_key empty_registry) =
      \<lparr>resp_download_id = 0, resp_status = ''started''\<rparr>"
    and l: "launched (snd (submit sample_key empty_registry)) = [0]"
    and f: "findActive sample_key (snd (submit sample_key empty_registry)) = Some 0"
    by simp_all
  note second = submit_response_contract [of sample_key "snd (submit sample_key empty_registry)"]
  from second f have b: "fst (submit sample_key (snd (submit sample_key empty_registry))) =
      \<lparr>resp_download_id = 0, resp_status = ''in_progress''\<rparr>"
    and c: "snd (submit sample_key (snd (submit sample_key empty_registry))) =
      snd (submit sample_key empty_registry)"
    by simp_all
  from n a f b l c show ?thesis by simp
qed

subsection \<open>Progress\<close>

lemma observed_lower_bound: "x \<in> set (observed jb es) \<Longrightarrow> percent jb \<le> x"
proof (induction jb es rule: observed.induct)
  case (1 jb)
  then show ?case by simp
next
  case (2 jb p m es)
  have "percent jb \<le> percent (onProgress p m jb)" by (simp add: onProgress_def)
  with 2 show ?case by (auto simp: snapshot_def)
qed

lemma observed_sorted: "sorted (observed jb es)"
proof (induction jb es rule: observed.induct)
  case (1 jb)
  then show ?case by simp
next
  case (2 jb p m es)
  have "\<And>x. x \<in> set (observed (onProgress p m jb) es) \<Longrightarrow> percent (onProgress p m jb) \<le> x"
    by (rule observed_lower_bound)
  with 2 show ?case by (simp add: snapshot_def)
qed

text \<open>
  Claim C7. The percent values read from the Progress Cache after each progress event
  of a job never decrease, starting from the job's percent: an event reporting less
  than the last known value leaves the value as it is. The events 10, 35, 20, 80, 100
  on a new job are read as 10, 35, 35, 80, 100.
\<close>

theorem observed_percent_monotone:
  "sorted (percent jb # observed jb es) \<and>
   percent (onProgress p m jb) = (if p < percent jb then percent jb else p) \<and>
   observed \<lparr>job_key = k, job_state = Running, percent = 0, job_message = []\<rparr>
     [(10, ''a''), (35, ''b''), (20, ''c''), (80, ''d''), (100, ''e'')] = [10, 35, 35, 80, 100]"
proof -
  have a: "sorted (percent jb # observed jb es)"
    using observed_sorted [of jb es] observed_lower_bound [of _ jb es] by simp
  have b: "percent (onProgress p m jb) = (if p < percent jb then percent jb else p)"
    by (simp add: onProgress_def max_def)
  have c: "observed \<lparr>job_key = k, job_state = Running, percent = 0, job_message = []\<rparr>
     [(10, ''a''), (35, ''b''), (20, ''c''), (80, ''d''), (100, ''e'')] = [10, 35, 35, 80, 100]"
    by (simp add: onProgress_def snapshot_def)
  from a b c show ?thesis by blast
qed

subsection \<open>Retrieval\<close>

lemma retrieve_bytes:
  "(retrieve j reg = Inr bytes) =
     (\<exists>jb. jobs reg j = Some jb \<and> job_state jb = Completed bytes)"
  by (auto simp: retrieve_def split: option.splits job_state.splits)

lemma completed_name: "(status_name st = ''completed'') = (\<exists>bytes. st = Completed bytes)"
  by (cases st) (simp_all add: status_name_def)

text \<open>
  Claim C5. Retrieval returns bytes exactly when the job exists and its status is
  completed, and then the bytes of the produced file; in every other state the answer
  is the NotReady or the NotFound error. The client, for its part, navigates to
  \<^verbatim>\<open>/api/download/{id}/file\<close> once for each progress answer with status
  \<^verbatim>\<open>completed\<close> and at no other time.
\<close>

theorem file_retrieval_contract:
  assumes valid: "url s \<noteq> []" "validateUrl hostname_of (platform s) (url s) = None"
      "platform s \<in> set PLATFORMS" "format s \<in> set FORMATS"
    and start: "s0 = handleDownload hostname_of (PostResolved r) s"
    and feasible: "feasible evs s0"
  shows "(\<exists>bytes. retrieve j reg = Inr bytes) =
      (\<exists>jb. jobs reg j = Some jb \<and> status_name (job_state jb) = ''completed'') \<and>
    (retrieve j reg = Inr bytes) =
      (\<exists>jb. jobs reg j = Some jb \<and> job_state jb = Completed bytes) \<and>
    ((\<exists>bytes. retrieve j reg = Inr bytes) \<or>
      retrieve j reg = Inl NotReadyError \<or> retrieve j reg = Inl NotFoundError) \<and>
    navigations (run evs s0) =
      navigations s @
        replicate (length (filter is_completed evs))
          (baseURL s @ ''/api/download/'' @ download_id r @ ''/file'')"
proof -
  have a: "(\<exists>bytes. retrieve j reg = Inr bytes) =
      (\<exists>jb. jobs reg j = Some jb \<and> status_name (job_state jb) = ''completed'')"
    by (auto simp: retrieve_bytes completed_name)
  have c: "(\<exists>bytes. retrieve j reg = Inr bytes) \<or>
      retrieve j reg = Inl NotReadyError \<or> retrieve j reg = Inl NotFoundError"
    by (auto simp: retrieve_def split: option.splits job_state.splits)
  have s0: "navigations s0 = navigations s" "baseURL s0 = baseURL s"
      "downloadId s0 = download_id r"
    using handleDownload_resolved [OF valid, of r] start by simp_all
  have d: "navigations (run evs s0) =
      navigations s @
        replicate (length (filter is_completed evs))
          (baseURL s @ ''/api/download/'' @ download_id r @ ''/file'')"
    using navigations_run [OF feasible] s0 by simp
  from a retrieve_bytes [of j reg bytes] c d show ?thesis by blast
qed

theorem file_retrieval_contract_witness:
  "url sample_form \<noteq> [] \<and>
   validateUrl sample_hostname (platform sample_form) (url sample_form) = None \<and>
   platform sample_form \<in> set PLATFORMS \<and> format sample_form \<in> set FORMATS \<and>
   feasible [Tick, Done (Resolved sample_running), Tick, Done (Resolved sample_completed)]
     (handleDownload sample_hostname (PostResolved sample_started) sample_form) \<and>
   navigations (run [Tick, Done (Resolved sample_running), Tick, Done (Resolved sample_completed)]
     (handleDownload sample_hostname (PostResolved sample_started) sample_form)) =
     [''http://localhost:3002/api/download/j1/file''] \<and>
   retrieve 0 (handle_event 0 (SuccessEvent ''ID3'') (snd (submit sample_key empty_registry))) =
     Inr ''ID3'' \<and>
   retrieve 0 (snd (submit sample_key empty_registry)) = Inl NotReadyError"
proof -
  have v: "url sample_form \<noteq> []"
    "validateUrl sample_hostname (platform sample_form) (url sample_form) = None"
    "platform sample_form \<in> set PLATFORMS" "format sample_form \<in> set FORMATS"
    by code_simp+
  have f: "feasible [Tick, Done (Resolved sample_running), Tick, Done (Resolved sample_completed)]
     (handleDownload sample_hostname (PostResolved sample_started) sample_form)"
    by code_simp
  have c: "length (filter is_completed
      [Tick, Done (Resolved sample_running), Tick, Done (Resolved sample_completed)]) = 1"
    by (simp add: sample_running_def sample_completed_def)
  have b: "navigations sample_form = []" "baseURL sample_form = ''http://localhost:3002''"
    "download_id sample_started = ''j1''"
    by (simp_all add: sample_form_def sample_started_def)
  have j: "jobs (handle_event 0 (SuccessEvent ''ID3'') (snd (submit sample_key empty_registry))) 0 =
      Some \<lparr>job_key = sample_key, job_state = Completed ''ID3'', percent = 100, job_message = []\<rparr>"
    by (simp add: handle_event_def submit_def registerOrAttach_def findActive_def
        empty_registry_def release_def Let_def)
  have q: "jobs (snd (submit sample_key empty_registry)) 0 =
      Some \<lparr>job_key = sample_key, job_state = Running, percent = 0, job_message = []\<rparr>"
    by (simp add: submit_def registerOrAttach_def findActive_def empty_registry_def Let_def)
  note t1 = file_retrieval_contract [OF v refl f,
      of 0 "handle_event 0 (SuccessEvent ''ID3'') (snd (submit sample_key empty_registry))" "''ID3''"]
  note t2 = file_retrieval_contract [OF v refl f,
      of 0 "snd (submit sample_key empty_registry)" "''ID3''"]
  from t1 have n: "navigations
      (run [Tick, Done (Resolved sample_running), Tick, Done (Resolved sample_completed)]
        (handleDownload sample_hostname (PostResolved sample_started) sample_form)) =
      [''http://localhost:3002/api/download/j1/file'']"
    unfolding c b by simp
  from t1 j have r1: "retrieve 0
      (handle_event 0 (SuccessEvent ''ID3'') (snd (submit sample_key empty_registry))) = Inr ''ID3''"
    by simp
  from t2 q have "\<not> (\<exists>bytes. retrieve 0 (snd (submit sample_key empty_registry)) = Inr bytes)"
    by (simp add: status_name_def)
  then have r2: "retrieve 0 (snd (submit sample_key empty_registry)) = Inl NotReadyError"
    by (simp add: retrieve_def q)
  from v f n r1 r2 show ?thesis by blast
qed

subsection \<open>The progress endpoint\<close>










end
